theory Spec2Isabelle
  imports Main "HOL-Library.Word"
begin

section \<open>Etcd-backed registries for deployments and images\<close>

text \<open>
  A shallow embedding of \<^verbatim>\<open>pkg/deploy/registry/etcd/etcd.go\<close> and
  \<^verbatim>\<open>pkg/image/registry/etcd/etcd.go\<close>. Each registry method becomes a function
  that takes the helper it embeds (\<^verbatim>\<open>tools.EtcdHelper\<close>) and the state of the backing
  store, and returns its Go results together with the state the store is left in.
  Go's \<^verbatim>\<open>error\<close> results are \<open>error option\<close>, with \<open>None\<close> for \<^verbatim>\<open>nil\<close>;
  a \<^verbatim>\<open>uint64\<close> is a \<open>64 word\<close>. The Go names \<^verbatim>\<open>id\<close>,
  \<^verbatim>\<open>filter\<close> and \<^verbatim>\<open>image\<close> are written \<open>ident\<close>, \<open>fltr\<close> and \<open>img\<close>.
\<close>

subsection \<open>Errors\<close>

text \<open>The two sentinel errors of Go's \<^verbatim>\<open>strconv\<close>.\<close>

datatype strconv_error = ErrSyntax | ErrRange

text \<open>
  Modelled from the spec: the errors of the backing store and the taxonomy of the domain
  errors belong to the store client and to package \<^verbatim>\<open>etcderr\<close>, which are not
  among the source files. Sections 4.4 and 6: the store reports that a key is absent, that
  a key is already present, that it detected a concurrent modification, or any other
  failure; the translator produces \<open>NotFound\<close>, \<open>AlreadyExists\<close>, \<open>Conflict\<close> or
  \<open>Internal\<close>.
\<close>

datatype store_failure = KeyAbsent | KeyPresent | ConcurrentModification | OtherFailure string

datatype category = NotFound | AlreadyExists | Conflict | Internal

text \<open>
  The values of Go's \<^verbatim>\<open>error\<close> interface that reach these two files:
  an error of the store, \<^verbatim>\<open>&strconv.NumError{Func, Num, Err}\<close>,
  \<^verbatim>\<open>errors.New(text)\<close>, and the domain errors of the translator: one tagged with
  category, operation, kind and id, and the invalid resource version carrying the kind and
  the offending token.
\<close>

datatype error =
    StoreError store_failure
  | NumError string string strconv_error
  | ErrorString string
  | DomainError category string string string
  | InvalidResourceVersion string string

subsection \<open>The error translator\<close>

text \<open>
  Modelled from the spec: package \<^verbatim>\<open>etcderr\<close> (\<^verbatim>\<open>InterpretGetError\<close>,
  \<^verbatim>\<open>InterpretCreateError\<close>, \<^verbatim>\<open>InterpretUpdateError\<close>,
  \<^verbatim>\<open>InterpretDeleteError\<close>, \<^verbatim>\<open>InterpretResourceVersionError\<close>) is called by the
  registries and is not among the source files. Section 4.4: the translator maps the
  store's outcome to \<open>NotFound\<close> (key absent on Get/Delete), \<open>AlreadyExists\<close> (key already
  present on Create), \<open>Conflict\<close> (concurrent modification detected by the store on
  Update/Delete) or \<open>Internal\<close> (anything else); a nil store error always translates to
  nil; every produced domain error is tagged with the operation name, the kind and the id.
  Section 4.2: an unparsable token fails with \<open>InvalidResourceVersion\<close>, carrying the kind
  and the offending token.
\<close>

definition categorise :: "error \<Rightarrow> string \<Rightarrow> category" where
  "categorise e operation =
     (if e = StoreError KeyAbsent \<and> (operation = ''get'' \<or> operation = ''delete'') then NotFound
      else if e = StoreError KeyPresent \<and> operation = ''create'' then AlreadyExists
      else if e = StoreError ConcurrentModification
                \<and> (operation = ''update'' \<or> operation = ''delete'') then Conflict
      else Internal)"

fun translate :: "error option \<Rightarrow> string \<Rightarrow> string \<Rightarrow> string \<Rightarrow> error option" where
  "translate None operation kind ident = None"
| "translate (Some e) operation kind ident =
     Some (DomainError (categorise e operation) operation kind ident)"

definition InterpretGetError :: "error option \<Rightarrow> string \<Rightarrow> string \<Rightarrow> error option" where
  "InterpretGetError err kind ident = translate err ''get'' kind ident"

definition InterpretCreateError :: "error option \<Rightarrow> string \<Rightarrow> string \<Rightarrow> error option" where
  "InterpretCreateError err kind ident = translate err ''create'' kind ident"

definition InterpretUpdateError :: "error option \<Rightarrow> string \<Rightarrow> string \<Rightarrow> error option" where
  "InterpretUpdateError err kind ident = translate err ''update'' kind ident"

definition InterpretDeleteError :: "error option \<Rightarrow> string \<Rightarrow> string \<Rightarrow> error option" where
  "InterpretDeleteError err kind ident = translate err ''delete'' kind ident"

definition InterpretResourceVersionError :: "error \<Rightarrow> string \<Rightarrow> string \<Rightarrow> error" where
  "InterpretResourceVersionError err kind val = InvalidResourceVersion kind val"

subsection \<open>Parsing the resource version\<close>

text \<open>
  \<^verbatim>\<open>strconv.ParseUint(s, 10, 64)\<close> of Go's standard library, at the base and the bit
  size both registries call it with. For each byte it computes the digit value (decimal
  digits, then letters from ten upwards), rejects a byte that is no digit or a digit not
  below the base with \<^verbatim>\<open>ErrSyntax\<close>, and reports \<^verbatim>\<open>ErrRange\<close> when
  \<open>n \<ge> cutoff\<close> (so that \<open>n * base\<close> would overflow) or when adding the digit wraps
  around. The empty string is a syntax error. No sign, blank or underscore is accepted.
\<close>

definition digitOf :: "char \<Rightarrow> nat option" where
  "digitOf c =
     (let d = (of_char c :: nat) in
      if 48 \<le> d \<and> d \<le> 57 then Some (d - 48)
      else if 97 \<le> d \<and> d \<le> 122 then Some (d - 97 + 10)
      else if 65 \<le> d \<and> d \<le> 90 then Some (d - 65 + 10)
      else None)"

definition maxUint64 :: "64 word" where
  "maxUint64 = 18446744073709551615"

definition cutoff64 :: "64 word" where
  "cutoff64 = maxUint64 div 10 + 1"

fun parseUintLoop :: "string \<Rightarrow> 64 word \<Rightarrow> strconv_error + 64 word" where
  "parseUintLoop [] n = Inr n"
| "parseUintLoop (c # cs) n =
     (case digitOf c of
        None \<Rightarrow> Inl ErrSyntax
      | Some v \<Rightarrow>
          if 10 \<le> v then Inl ErrSyntax
          else if cutoff64 \<le> n then Inl ErrRange
          else (let n10 = n * 10; n1 = n10 + of_nat v in
                if n1 < n10 \<or> maxUint64 < n1 then Inl ErrRange
                else parseUintLoop cs n1))"

definition ParseUint :: "string \<Rightarrow> error + 64 word" where
  "ParseUint s =
     (if s = [] then Inl (NumError ''ParseUint'' s ErrSyntax)
      else case parseUintLoop s 0 of
             Inl e \<Rightarrow> Inl (NumError ''ParseUint'' s e)
           | Inr n \<Rightarrow> Inr n)"

text \<open>
  \<^verbatim>\<open>parseWatchResourceVersion\<close>, which both packages define with the same body.
  The addition \<open>version + 1\<close> is Go's on \<^verbatim>\<open>uint64\<close>: it wraps around.
\<close>

definition parseWatchResourceVersion :: "string \<Rightarrow> string \<Rightarrow> 64 word \<times> error option" where
  "parseWatchResourceVersion resourceVersion kind =
     (if resourceVersion = '''' \<or> resourceVersion = ''0'' then (0, None)
      else case ParseUint resourceVersion of
             Inl err \<Rightarrow> (0, Some (InterpretResourceVersionError err kind resourceVersion))
           | Inr version \<Rightarrow> (version + 1, None))"

subsection \<open>Resources, collections and the objects of a watch\<close>

text \<open>
  The registries read two fields of an entity, \<^verbatim>\<open>ID\<close> and \<^verbatim>\<open>Labels\<close>
  (a \<^verbatim>\<open>map[string]string\<close>); the fields that are specific to a kind live in the
  extension of the record. A list type carries \<^verbatim>\<open>Items\<close>, and whatever else the
  store fills in lives in its extension. Entities are passed by pointer in Go; the model
  passes the entity the pointer refers to.
\<close>

record Resource =
  ID :: string
  Labels :: "string \<rightharpoonup> string"

type_synonym 'p Deployment = "'p Resource_scheme"
type_synonym 'p DeploymentConfig = "'p Resource_scheme"
type_synonym 'p Image = "'p Resource_scheme"
type_synonym 'p ImageRepository = "'p Resource_scheme"

record 'a ResourceList =
  Items :: "'a list"

text \<open>
  \<^verbatim>\<open>labels.Selector\<close> is an interface; the registries call its method
  \<^verbatim>\<open>Matches\<close> only.
\<close>

record Selector =
  Matches :: "(string \<rightharpoonup> string) \<Rightarrow> bool"

text \<open>
  A \<^verbatim>\<open>runtime.Object\<close> is a value with a dynamic type: one of the four kinds, or
  any other type, named by a string. The type assertions of the source are case
  distinctions on the constructor.
\<close>

datatype 'p Object =
    DeploymentObject "'p Deployment"
  | DeploymentConfigObject "'p DeploymentConfig"
  | ImageObject "'p Image"
  | ImageRepositoryObject "'p ImageRepository"
  | ForeignObject string

text \<open>A call of \<^verbatim>\<open>glog.Errorf(format, obj)\<close>: the format and its argument.\<close>

datatype 'p Diag = Errorf string "'p Object"

text \<open>
  A filter the caller supplies may have effects of its own: it takes the caller's state
  \<open>'u\<close> and returns the new one. The predicate a registry hands to the store runs in the
  caller's state and the diagnostic log.
\<close>

type_synonym ('a, 'u) Filter = "'a \<Rightarrow> 'u \<Rightarrow> bool \<times> 'u"

type_synonym ('p, 'u) Predicate =
  "'p Object \<Rightarrow> 'u \<times> 'p Diag list \<Rightarrow> bool \<times> ('u \<times> 'p Diag list)"

subsection \<open>The store helper\<close>

text \<open>
  \<^verbatim>\<open>tools.EtcdHelper\<close> is the external collaborator: its six methods are taken as
  they come, as functions on the state \<open>'s\<close> of the store. \<^verbatim>\<open>ExtractToList\<close> and
  \<^verbatim>\<open>ExtractObj\<close> fill the value their pointer argument refers to, which is
  returned here beside the error. \<open>'i\<close> is \<^verbatim>\<open>watch.Interface\<close>.
\<close>

record ('s, 'p, 'l, 'u, 'i) EtcdHelper =
  ExtractToList :: "string \<Rightarrow> 's \<Rightarrow> (('p Resource_scheme, 'l) ResourceList_scheme \<times> error option) \<times> 's"
  ExtractObj :: "string \<Rightarrow> bool \<Rightarrow> 's \<Rightarrow> ('p Resource_scheme \<times> error option) \<times> 's"
  CreateObj :: "string \<Rightarrow> 'p Resource_scheme \<Rightarrow> 64 word \<Rightarrow> 's \<Rightarrow> error option \<times> 's"
  SetObj :: "string \<Rightarrow> 'p Resource_scheme \<Rightarrow> 's \<Rightarrow> error option \<times> 's"
  Delete :: "string \<Rightarrow> bool \<Rightarrow> 's \<Rightarrow> error option \<times> 's"
  WatchList :: "string \<Rightarrow> 64 word \<Rightarrow> ('p, 'u) Predicate \<Rightarrow> 's \<Rightarrow> ('i option \<times> error option) \<times> 's"

subsection \<open>Listing\<close>

text \<open>
  The loop \<^verbatim>\<open>for _, item := range list.Items\<close> of the four list methods, with
  \<^verbatim>\<open>filtered\<close> as its accumulator.
\<close>

fun filterItems :: "Selector \<Rightarrow> 'p Resource_scheme list \<Rightarrow> 'p Resource_scheme list
    \<Rightarrow> 'p Resource_scheme list" where
  "filterItems selector [] filtered = filtered"
| "filterItems selector (item # items) filtered =
     filterItems selector items
       (if Matches selector (Labels item) then filtered @ [item] else filtered)"

definition ListDeployments ::
  "('s, 'p, 'l, 'u, 'i) EtcdHelper \<Rightarrow> Selector \<Rightarrow> 's
    \<Rightarrow> (('p Deployment, 'l) ResourceList_scheme option \<times> error option) \<times> 's" where
  "ListDeployments r selector s =
     (case ExtractToList r ''/deployments'' s of
        ((deployments, err), s') \<Rightarrow>
          if err \<noteq> None then ((None, err), s')
          else ((Some (deployments\<lparr>Items := filterItems selector (Items deployments) []\<rparr>), err), s'))"

definition ListDeploymentConfigs ::
  "('s, 'p, 'l, 'u, 'i) EtcdHelper \<Rightarrow> Selector \<Rightarrow> 's
    \<Rightarrow> (('p DeploymentConfig, 'l) ResourceList_scheme option \<times> error option) \<times> 's" where
  "ListDeploymentConfigs r selector s =
     (case ExtractToList r ''/deploymentConfigs'' s of
        ((deploymentConfigs, err), s') \<Rightarrow>
          if err \<noteq> None then ((None, err), s')
          else ((Some (deploymentConfigs\<lparr>Items := filterItems selector (Items deploymentConfigs) []\<rparr>),
                 err), s'))"

definition ListImages ::
  "('s, 'p, 'l, 'u, 'i) EtcdHelper \<Rightarrow> Selector \<Rightarrow> 's
    \<Rightarrow> (('p Image, 'l) ResourceList_scheme option \<times> error option) \<times> 's" where
  "ListImages r selector s =
     (case ExtractToList r ''/images'' s of
        ((list, err), s') \<Rightarrow>
          if err \<noteq> None then ((None, err), s')
          else ((Some (list\<lparr>Items := filterItems selector (Items list) []\<rparr>), None), s'))"

definition ListImageRepositories ::
  "('s, 'p, 'l, 'u, 'i) EtcdHelper \<Rightarrow> Selector \<Rightarrow> 's
    \<Rightarrow> (('p ImageRepository, 'l) ResourceList_scheme option \<times> error option) \<times> 's" where
  "ListImageRepositories r selector s =
     (case ExtractToList r ''/imageRepositories'' s of
        ((list, err), s') \<Rightarrow>
          if err \<noteq> None then ((None, err), s')
          else ((Some (list\<lparr>Items := filterItems selector (Items list) []\<rparr>), None), s'))"

subsection \<open>Keys\<close>

definition makeDeploymentKey :: "string \<Rightarrow> string" where
  "makeDeploymentKey ident = ''/deployments/'' @ ident"

definition makeDeploymentConfigKey :: "string \<Rightarrow> string" where
  "makeDeploymentConfigKey ident = ''/deploymentConfigs/'' @ ident"

definition makeImageKey :: "string \<Rightarrow> string" where
  "makeImageKey ident = ''/images/'' @ ident"

definition makeImageRepositoryKey :: "string \<Rightarrow> string" where
  "makeImageRepositoryKey ident = ''/imageRepositories/'' @ ident"

subsection \<open>Get, Create, Update and Delete\<close>

text \<open>
  \<^verbatim>\<open>Get\<close> calls the translator only when the store call failed; the other three
  hand it whatever the store call returned, nil or not.
\<close>

definition GetDeployment ::
  "('s, 'p, 'l, 'u, 'i) EtcdHelper \<Rightarrow> string \<Rightarrow> 's \<Rightarrow> ('p Deployment option \<times> error option) \<times> 's" where
  "GetDeployment r ident s =
     (let key = makeDeploymentKey ident in
      case ExtractObj r key False s of
        ((deployment, Some err), s') \<Rightarrow> ((None, InterpretGetError (Some err) ''deployment'' ident), s')
      | ((deployment, None), s') \<Rightarrow> ((Some deployment, None), s'))"

definition CreateDeployment ::
  "('s, 'p, 'l, 'u, 'i) EtcdHelper \<Rightarrow> 'p Deployment \<Rightarrow> 's \<Rightarrow> error option \<times> 's" where
  "CreateDeployment r deployment s =
     (case CreateObj r (makeDeploymentKey (ID deployment)) deployment 0 s of
        (err, s') \<Rightarrow> (InterpretCreateError err ''deployment'' (ID deployment), s'))"

definition UpdateDeployment ::
  "('s, 'p, 'l, 'u, 'i) EtcdHelper \<Rightarrow> 'p Deployment \<Rightarrow> 's \<Rightarrow> error option \<times> 's" where
  "UpdateDeployment r deployment s =
     (case SetObj r (makeDeploymentKey (ID deployment)) deployment s of
        (err, s') \<Rightarrow> (InterpretUpdateError err ''deployment'' (ID deployment), s'))"

definition DeleteDeployment ::
  "('s, 'p, 'l, 'u, 'i) EtcdHelper \<Rightarrow> string \<Rightarrow> 's \<Rightarrow> error option \<times> 's" where
  "DeleteDeployment r ident s =
     (let key = makeDeploymentKey ident in
      case Delete r key False s of
        (err, s') \<Rightarrow> (InterpretDeleteError err ''deployment'' ident, s'))"

definition GetDeploymentConfig ::
  "('s, 'p, 'l, 'u, 'i) EtcdHelper \<Rightarrow> string \<Rightarrow> 's \<Rightarrow> ('p DeploymentConfig option \<times> error option) \<times> 's" where
  "GetDeploymentConfig r ident s =
     (let key = makeDeploymentConfigKey ident in
      case ExtractObj r key False s of
        ((deploymentConfig, Some err), s') \<Rightarrow> ((None, InterpretGetError (Some err) ''deploymentConfig'' ident), s')
      | ((deploymentConfig, None), s') \<Rightarrow> ((Some deploymentConfig, None), s'))"

definition CreateDeploymentConfig ::
  "('s, 'p, 'l, 'u, 'i) EtcdHelper \<Rightarrow> 'p DeploymentConfig \<Rightarrow> 's \<Rightarrow> error option \<times> 's" where
  "CreateDeploymentConfig r deploymentConfig s =
     (case CreateObj r (makeDeploymentConfigKey (ID deploymentConfig)) deploymentConfig 0 s of
        (err, s') \<Rightarrow> (InterpretCreateError err ''deploymentConfig'' (ID deploymentConfig), s'))"

definition UpdateDeploymentConfig ::
  "('s, 'p, 'l, 'u, 'i) EtcdHelper \<Rightarrow> 'p DeploymentConfig \<Rightarrow> 's \<Rightarrow> error option \<times> 's" where
  "UpdateDeploymentConfig r deploymentConfig s =
     (case SetObj r (makeDeploymentConfigKey (ID deploymentConfig)) deploymentConfig s of
        (err, s') \<Rightarrow> (InterpretUpdateError err ''deploymentConfig'' (ID deploymentConfig), s'))"

definition DeleteDeploymentConfig ::
  "('s, 'p, 'l, 'u, 'i) EtcdHelper \<Rightarrow> string \<Rightarrow> 's \<Rightarrow> error option \<times> 's" where
  "DeleteDeploymentConfig r ident s =
     (let key = makeDeploymentConfigKey ident in
      case Delete r key False s of
        (err, s') \<Rightarrow> (InterpretDeleteError err ''deploymentConfig'' ident, s'))"

definition GetImage ::
  "('s, 'p, 'l, 'u, 'i) EtcdHelper \<Rightarrow> string \<Rightarrow> 's \<Rightarrow> ('p Image option \<times> error option) \<times> 's" where
  "GetImage r ident s =
     (case ExtractObj r (makeImageKey ident) False s of
        ((img, Some err), s') \<Rightarrow> ((None, InterpretGetError (Some err) ''image'' ident), s')
      | ((img, None), s') \<Rightarrow> ((Some img, None), s'))"

definition CreateImage ::
  "('s, 'p, 'l, 'u, 'i) EtcdHelper \<Rightarrow> 'p Image \<Rightarrow> 's \<Rightarrow> error option \<times> 's" where
  "CreateImage r img s =
     (case CreateObj r (makeImageKey (ID img)) img 0 s of
        (err, s') \<Rightarrow> (InterpretCreateError err ''image'' (ID img), s'))"

text \<open>\<^verbatim>\<open>UpdateImage\<close> returns \<^verbatim>\<open>errors.New("not supported")\<close> and calls nothing.\<close>

definition UpdateImage ::
  "('s, 'p, 'l, 'u, 'i) EtcdHelper \<Rightarrow> 'p Image \<Rightarrow> 's \<Rightarrow> error option \<times> 's" where
  "UpdateImage r img s = (Some (ErrorString ''not supported''), s)"

definition DeleteImage ::
  "('s, 'p, 'l, 'u, 'i) EtcdHelper \<Rightarrow> string \<Rightarrow> 's \<Rightarrow> error option \<times> 's" where
  "DeleteImage r ident s =
     (let key = makeImageKey ident in
      case Delete r key False s of
        (err, s') \<Rightarrow> (InterpretDeleteError err ''image'' ident, s'))"

definition GetImageRepository ::
  "('s, 'p, 'l, 'u, 'i) EtcdHelper \<Rightarrow> string \<Rightarrow> 's \<Rightarrow> ('p ImageRepository option \<times> error option) \<times> 's" where
  "GetImageRepository r ident s =
     (case ExtractObj r (makeImageRepositoryKey ident) False s of
        ((repo, Some err), s') \<Rightarrow> ((None, InterpretGetError (Some err) ''imageRepository'' ident), s')
      | ((repo, None), s') \<Rightarrow> ((Some repo, None), s'))"

definition CreateImageRepository ::
  "('s, 'p, 'l, 'u, 'i) EtcdHelper \<Rightarrow> 'p ImageRepository \<Rightarrow> 's \<Rightarrow> error option \<times> 's" where
  "CreateImageRepository r repo s =
     (case CreateObj r (makeImageRepositoryKey (ID repo)) repo 0 s of
        (err, s') \<Rightarrow> (InterpretCreateError err ''imageRepository'' (ID repo), s'))"

definition UpdateImageRepository ::
  "('s, 'p, 'l, 'u, 'i) EtcdHelper \<Rightarrow> 'p ImageRepository \<Rightarrow> 's \<Rightarrow> error option \<times> 's" where
  "UpdateImageRepository r repo s =
     (case SetObj r (makeImageRepositoryKey (ID repo)) repo s of
        (err, s') \<Rightarrow> (InterpretUpdateError err ''imageRepository'' (ID repo), s'))"

definition DeleteImageRepository ::
  "('s, 'p, 'l, 'u, 'i) EtcdHelper \<Rightarrow> string \<Rightarrow> 's \<Rightarrow> error option \<times> 's" where
  "DeleteImageRepository r ident s =
     (let imageRepositoryKey = makeImageRepositoryKey ident in
      case Delete r imageRepositoryKey False s of
        (err, s') \<Rightarrow> (InterpretDeleteError err ''imageRepository'' ident, s'))"

subsection \<open>Watching\<close>

text \<open>
  The function literal each watch method passes to \<^verbatim>\<open>WatchList\<close> is given a name
  here. Its type assertion fails for an object of any other dynamic type; then it logs
  through \<^verbatim>\<open>glog.Errorf\<close> and returns \<^verbatim>\<open>false\<close>. The image package has a watch
  for image repositories only.
\<close>

definition deploymentWatchPredicate :: "('p Deployment, 'u) Filter \<Rightarrow> ('p, 'u) Predicate" where
  "deploymentWatchPredicate fltr obj w =
     (case obj of
        DeploymentObject deployment \<Rightarrow> (case fltr deployment (fst w) of (b, u') \<Rightarrow> (b, (u', snd w)))
      | _ \<Rightarrow> (False, (fst w, snd w @ [Errorf ''Unexpected object during deployment watch: %#v'' obj])))"

definition WatchDeployments ::
  "('s, 'p, 'l, 'u, 'i) EtcdHelper \<Rightarrow> string \<Rightarrow> ('p Deployment, 'u) Filter \<Rightarrow> 's
    \<Rightarrow> ('i option \<times> error option) \<times> 's" where
  "WatchDeployments r resourceVersion fltr s =
     (case parseWatchResourceVersion resourceVersion ''deployment'' of
        (version, Some err) \<Rightarrow> ((None, Some err), s)
      | (version, None) \<Rightarrow> WatchList r ''/deployments'' version (deploymentWatchPredicate fltr) s)"

definition deploymentConfigWatchPredicate :: "('p DeploymentConfig, 'u) Filter \<Rightarrow> ('p, 'u) Predicate" where
  "deploymentConfigWatchPredicate fltr obj w =
     (case obj of
        DeploymentConfigObject config \<Rightarrow> (case fltr config (fst w) of (b, u') \<Rightarrow> (b, (u', snd w)))
      | _ \<Rightarrow> (False, (fst w, snd w @ [Errorf ''Unexpected object during deploymentConfig watch: %#v'' obj])))"

definition WatchDeploymentConfigs ::
  "('s, 'p, 'l, 'u, 'i) EtcdHelper \<Rightarrow> string \<Rightarrow> ('p DeploymentConfig, 'u) Filter \<Rightarrow> 's
    \<Rightarrow> ('i option \<times> error option) \<times> 's" where
  "WatchDeploymentConfigs r resourceVersion fltr s =
     (case parseWatchResourceVersion resourceVersion ''deploymentConfig'' of
        (version, Some err) \<Rightarrow> ((None, Some err), s)
      | (version, None) \<Rightarrow> WatchList r ''/deploymentConfigs'' version (deploymentConfigWatchPredicate fltr) s)"

definition imageRepositoryWatchPredicate :: "('p ImageRepository, 'u) Filter \<Rightarrow> ('p, 'u) Predicate" where
  "imageRepositoryWatchPredicate fltr obj w =
     (case obj of
        ImageRepositoryObject repo \<Rightarrow> (case fltr repo (fst w) of (b, u') \<Rightarrow> (b, (u', snd w)))
      | _ \<Rightarrow> (False, (fst w, snd w @ [Errorf ''Unexpected object during image repository watch: %#v'' obj])))"

definition WatchImageRepositories ::
  "('s, 'p, 'l, 'u, 'i) EtcdHelper \<Rightarrow> string \<Rightarrow> ('p ImageRepository, 'u) Filter \<Rightarrow> 's
    \<Rightarrow> ('i option \<times> error option) \<times> 's" where
  "WatchImageRepositories r resourceVersion fltr s =
     (case parseWatchResourceVersion resourceVersion ''imageRepository'' of
        (version, Some err) \<Rightarrow> ((None, Some err), s)
      | (version, None) \<Rightarrow> WatchList r ''/imageRepositories'' version (imageRepositoryWatchPredicate fltr) s)"

text \<open>
  Modelled from the spec: the stream that \<^verbatim>\<open>tools.EtcdHelper.WatchList\<close> produces is
  not among the source files. Section 4.5: for each raw change delivered by the store the
  predicate is applied to the decoded object, and the event is forwarded only if the
  predicate returns true; a dropped event does not terminate the stream. \<open>watchStream\<close>
  runs the predicate over the raw events delivered so far and returns the events
  forwarded to the caller.
\<close>

datatype EventType = Added | Modified | Deleted

record 'p Event =
  Type :: EventType
  Object :: "'p Object"

fun watchStream :: "('p, 'u) Predicate \<Rightarrow> 'p Event list \<Rightarrow> 'u \<times> 'p Diag list
    \<Rightarrow> 'p Event list \<times> ('u \<times> 'p Diag list)" where
  "watchStream predicate [] w = ([], w)"
| "watchStream predicate (e # es) w =
     (case predicate (Object e) w of
        (b, w') \<Rightarrow>
          (case watchStream predicate es w' of
             (forwarded, w'') \<Rightarrow> (if b then e # forwarded else forwarded, w'')))"

subsection \<open>Notions of the specification\<close>

text \<open>
  A token is a decimal numeral when it is a non-empty string of the ASCII digits; its value
  is read digit by digit, most significant digit first.
\<close>

definition isDigit :: "char \<Rightarrow> bool" where
  "isDigit c = (48 \<le> (of_char c :: nat) \<and> (of_char c :: nat) \<le> 57)"

definition decimalStep :: "nat \<Rightarrow> char \<Rightarrow> nat" where
  "decimalStep a c = a * 10 + ((of_char c :: nat) - 48)"

definition decimalValue :: "string \<Rightarrow> nat" where
  "decimalValue s = foldl decimalStep 0 s"

definition isDecimal :: "string \<Rightarrow> bool" where
  "isDecimal s = (s \<noteq> [] \<and> list_all isDigit s)"

text \<open>
  The subsequence of a collection, in input order, of the entities whose labels satisfy
  the selector.
\<close>

definition matching :: "Selector \<Rightarrow> 'p Resource_scheme list \<Rightarrow> 'p Resource_scheme list" where
  "matching selector items = filter (\<lambda>item. Matches selector (Labels item)) items"

text \<open>The dynamic kind of an object is the kind a watch expects.\<close>

fun isDeployment :: "'p Object \<Rightarrow> bool" where
  "isDeployment (DeploymentObject d) = True"
| "isDeployment obj = False"

fun isDeploymentConfig :: "'p Object \<Rightarrow> bool" where
  "isDeploymentConfig (DeploymentConfigObject d) = True"
| "isDeploymentConfig obj = False"

fun isImageRepository :: "'p Object \<Rightarrow> bool" where
  "isImageRepository (ImageRepositoryObject d) = True"
| "isImageRepository obj = False"

text \<open>
  A store for concrete runs: its state counts the calls made on it. Extraction returns
  the given list and object with the given error; every other call returns the error too.
\<close>

definition countingHelper :: "Resource list \<Rightarrow> Resource \<Rightarrow> error option
    \<Rightarrow> (nat, unit, unit, 'u, nat) EtcdHelper" where
  "countingHelper items obj err =
     \<lparr>ExtractToList = (\<lambda>key s. ((\<lparr>Items = items\<rparr>, err), Suc s)),
      ExtractObj = (\<lambda>key ignoreNotFound s. ((obj, err), Suc s)),
      CreateObj = (\<lambda>key obj ttl s. (err, Suc s)),
      SetObj = (\<lambda>key obj s. (err, Suc s)),
      Delete = (\<lambda>key recursive s. (err, Suc s)),
      WatchList = (\<lambda>key version predicate s. ((Some s, err), Suc s))\<rparr>"

text \<open>
  Values for concrete runs: two entities, a selector on the label \<open>env\<close>, a filter
  that counts its invocations in the caller's state, one that records every value it is
  invoked on, and the event that an object was added.
\<close>

definition web :: Resource where
  "web = \<lparr>ID = ''web'', Labels = [''env'' \<mapsto> ''prod'']\<rparr>"

definition db :: Resource where
  "db = \<lparr>ID = ''db'', Labels = Map.empty\<rparr>"

definition prodSelector :: Selector where
  "prodSelector = \<lparr>Matches = (\<lambda>labels. labels ''env'' = Some ''prod'')\<rparr>"

definition countingFilter :: "(Resource, nat) Filter" where
  "countingFilter d n = (ID d = ''web'', Suc n)"

definition observing :: "('a \<Rightarrow> bool) \<Rightarrow> ('a, 'a list) Filter" where
  "observing f x seen = (f x, seen @ [x])"

definition added :: "unit Object \<Rightarrow> unit Event" where
  "added obj = \<lparr>Type = Added, Object = obj\<rparr>"

subsection \<open>Lemmas on the parse loop\<close>

lemma digitOf_digit: "isDigit c \<Longrightarrow> digitOf c = Some (of_char c - 48)"
  by (simp add: digitOf_def isDigit_def Let_def)

lemma digitOf_below_ten: "digitOf c = Some v \<Longrightarrow> v < 10 \<Longrightarrow> isDigit c \<and> v = of_char c - 48"
  by (auto simp: digitOf_def isDigit_def Let_def split: if_splits)

lemma foldl_decimalStep_mono: "a \<le> foldl decimalStep a cs"
proof (induction cs arbitrary: a)
  case Nil
  show ?case by simp
next
  case (Cons c cs)
  have "a \<le> decimalStep a c" by (simp add: decimalStep_def)
  also have "\<dots> \<le> foldl decimalStep (decimalStep a c) cs" by (rule Cons.IH)
  finally show ?case by simp
qed

lemma unat_cutoff64: "unat cutoff64 = 1844674407370955162"
  by (simp add: cutoff64_def maxUint64_def)

lemma mult10_no_wrap:
  fixes n :: "64 word"
  assumes "n < cutoff64"
  shows "unat (n * 10) = unat n * 10"
proof -
  have "unat n < 1844674407370955162"
    using assms by (simp add: word_less_nat_alt unat_cutoff64)
  then have "unat n * unat (10 :: 64 word) < 2 ^ LENGTH(64)" by simp
  then have "unat (n * 10) = unat n * unat (10 :: 64 word)"
    by (simp only: unat_mult_lem)
  then show ?thesis by simp
qed

lemma add_digit_wrap:
  fixes m :: "64 word"
  assumes "v < 10"
  shows "(m + of_nat v < m) = (2 ^ 64 \<le> unat m + v)"
proof -
  have v: "unat (of_nat v :: 64 word) = v"
    using assms by (simp add: unat_of_nat)
  show ?thesis
  proof (cases "unat m + v < 2 ^ 64")
    case True
    then have "unat m + unat (of_nat v :: 64 word) < 2 ^ LENGTH(64)" using v by simp
    then have "unat (m + of_nat v) = unat m + unat (of_nat v :: 64 word)"
      by (simp only: unat_add_lem)
    then show ?thesis using True v by (simp add: word_less_nat_alt)
  next
    case False
    have "unat (m + of_nat v) = (unat m + v) mod 2 ^ 64"
      using v by (simp add: unat_word_ariths)
    also have "\<dots> = unat m + v - 2 ^ 64"
    proof -
      have "unat m < 2 ^ 64" using unsigned_less [of m] by simp
      then have "unat m + v - 2 ^ 64 < 2 ^ 64" using assms by simp
      then show ?thesis using False by (simp add: mod_if)
    qed
    finally have "unat (m + of_nat v) < unat m" using False assms by simp
    then show ?thesis using False by (simp add: word_less_nat_alt)
  qed
qed

lemma add_digit_value:
  fixes m :: "64 word"
  assumes "v < 10" "unat m + v < 2 ^ 64"
  shows "unat (m + of_nat v) = unat m + v"
proof -
  have v: "unat (of_nat v :: 64 word) = v"
    using assms by (simp add: unat_of_nat)
  have "unat m + unat (of_nat v :: 64 word) < 2 ^ LENGTH(64)" using v assms by simp
  then have "unat (m + of_nat v) = unat m + unat (of_nat v :: 64 word)"
    by (simp only: unat_add_lem)
  then show ?thesis using v by simp
qed

lemma not_above_maxUint64: "\<not> maxUint64 < (w :: 64 word)"
proof -
  have "unat w < 2 ^ 64" using unsigned_less [of w] by simp
  then show ?thesis by (simp add: word_less_nat_alt maxUint64_def)
qed

lemma parseUintLoop_digit:
  assumes "isDigit c"
  shows "parseUintLoop (c # cs) n =
           (if 2 ^ 64 \<le> decimalStep (unat n) c then Inl ErrRange
            else parseUintLoop cs (n * 10 + of_nat (of_char c - 48)))"
proof -
  let ?v = "of_char c - (48 :: nat)"
  have d: "digitOf c = Some ?v" using assms by (rule digitOf_digit)
  have v: "?v < 10" using assms by (auto simp: isDigit_def)
  show ?thesis
  proof (cases "cutoff64 \<le> n")
    case True
    then have "1844674407370955162 \<le> unat n"
      by (simp add: word_le_nat_alt unat_cutoff64)
    then have "2 ^ 64 \<le> decimalStep (unat n) c" by (simp add: decimalStep_def)
    then show ?thesis using d v True by simp
  next
    case False
    then have lt: "n < cutoff64" by simp
    have m: "unat (n * 10) = unat n * 10" using lt by (rule mult10_no_wrap)
    have "(n * 10 + of_nat ?v < n * 10) = (2 ^ 64 \<le> decimalStep (unat n) c)"
      using add_digit_wrap [OF v, of "n * 10"] m by (simp add: decimalStep_def)
    then show ?thesis using d v False by (simp add: Let_def not_above_maxUint64)
  qed
qed

lemma parseUintLoop_Inr:
  "(parseUintLoop cs n = Inr w) =
     (list_all isDigit cs \<and> foldl decimalStep (unat n) cs < 2 ^ 64
      \<and> w = of_nat (foldl decimalStep (unat n) cs))"
proof (induction cs arbitrary: n)
  case Nil
  have "unat n < 2 ^ 64" using unsigned_less [of n] by simp
  then show ?case by auto
next
  case (Cons c cs)
  show ?case
  proof (cases "isDigit c")
    case False
    have "parseUintLoop (c # cs) n = Inl ErrSyntax"
    proof (cases "digitOf c")
      case None
      then show ?thesis by simp
    next
      case (Some v)
      then have "10 \<le> v" using digitOf_below_ten [of c v] False by (cases "v < 10") auto
      then show ?thesis using Some by simp
    qed
    then show ?thesis using False by simp
  next
    case True
    let ?v = "of_char c - (48 :: nat)"
    have v: "?v < 10" using True by (auto simp: isDigit_def)
    show ?thesis
    proof (cases "2 ^ 64 \<le> decimalStep (unat n) c")
      case over: True
      have "decimalStep (unat n) c \<le> foldl decimalStep (decimalStep (unat n) c) cs"
        by (rule foldl_decimalStep_mono)
      then have "\<not> foldl decimalStep (decimalStep (unat n) c) cs < 2 ^ 64"
        using over by simp
      then show ?thesis using parseUintLoop_digit [OF True, of cs n] over by simp
    next
      case fits: False
      then have lt: "n < cutoff64"
        by (simp add: word_less_nat_alt unat_cutoff64 decimalStep_def)
      have m: "unat (n * 10) = unat n * 10" using lt by (rule mult10_no_wrap)
      have "unat (n * 10 + of_nat ?v) = unat (n * 10) + ?v"
        using fits m by (intro add_digit_value [OF v]) (simp add: decimalStep_def)
      then have u: "unat (n * 10 + of_nat ?v) = decimalStep (unat n) c"
        using m by (simp add: decimalStep_def)
      show ?thesis
        using parseUintLoop_digit [OF True, of cs n] fits Cons.IH [of "n * 10 + of_nat ?v"] u True
        by simp
    qed
  qed
qed

lemma ParseUint_Inr:
  "(ParseUint s = Inr w) =
     (isDecimal s \<and> decimalValue s < 2 ^ 64 \<and> w = of_nat (decimalValue s))"
proof (cases "s = []")
  case True
  then show ?thesis by (simp add: ParseUint_def isDecimal_def)
next
  case False
  have "(ParseUint s = Inr w) = (parseUintLoop s 0 = Inr w)"
    using False by (simp add: ParseUint_def split: sum.splits)
  then show ?thesis
    using False by (simp add: parseUintLoop_Inr isDecimal_def decimalValue_def)
qed

lemma parse_accepts:
  assumes "isDecimal token" "token \<noteq> ''0''" "decimalValue token < 2 ^ 64"
  shows "parseWatchResourceVersion token kind = (of_nat (decimalValue token) + 1, None)"
proof -
  have "ParseUint token = Inr (of_nat (decimalValue token))"
    using assms by (simp add: ParseUint_Inr)
  moreover have "token \<noteq> []" using assms(1) by (simp add: isDecimal_def)
  ultimately show ?thesis using assms(2) by (simp add: parseWatchResourceVersion_def)
qed

lemma parse_rejects:
  assumes "token \<noteq> []" "\<not> isDecimal token \<or> 2 ^ 64 \<le> decimalValue token"
  shows "parseWatchResourceVersion token kind = (0, Some (InvalidResourceVersion kind token))"
proof -
  have "\<And>w. ParseUint token \<noteq> Inr w"
    using assms(2) by (auto simp: ParseUint_Inr)
  then obtain e where e: "ParseUint token = Inl e"
    by (cases "ParseUint token") auto
  have "token \<noteq> ''0''"
    using assms(2) by (auto simp: isDecimal_def isDigit_def decimalValue_def decimalStep_def)
  then show ?thesis
    using assms(1) e
    by (simp add: parseWatchResourceVersion_def InterpretResourceVersionError_def)
qed

lemma max_token: "isDecimal ''18446744073709551615''
    \<and> decimalValue ''18446744073709551615'' = 18446744073709551615"
  by (simp add: isDecimal_def isDigit_def decimalValue_def decimalStep_def)

lemma beyond_max_token: "isDecimal ''18446744073709551616''
    \<and> decimalValue ''18446744073709551616'' = 18446744073709551616"
  by (simp add: isDecimal_def isDigit_def decimalValue_def decimalStep_def)

lemma parse_max_token: "parseWatchResourceVersion ''18446744073709551615'' kind = (0, None)"
proof -
  have "parseWatchResourceVersion ''18446744073709551615'' kind
          = (of_nat (decimalValue ''18446744073709551615'') + 1, None)"
    using max_token by (intro parse_accepts) simp_all
  then show ?thesis using max_token by simp
qed

section \<open>Properties\<close>

subsection \<open>The version cursor\<close>

text \<open>
  C1 (amended). For every kind, parsing a watch resource-version token returns cursor 0
  with no error when the token is the empty string or \<open>0\<close>; returns cursor \<open>N + 1\<close> with
  no error when the token is another non-empty string of decimal digits whose value \<open>N\<close>
  is below \<open>2^64 - 1\<close>; and fails with \<open>InvalidResourceVersion\<close> carrying the kind and
  the offending token when the token is not empty and either is not a string of decimal
  digits or has a value of \<open>2^64\<close> or more. In particular the token \<open>5\<close> gives cursor 6
  and the token \<open>abc\<close> fails referencing \<open>abc\<close>.
\<close>

theorem parseWatchResourceVersion_cursor:
  "parseWatchResourceVersion '''' kind = (0, None)
   \<and> parseWatchResourceVersion ''0'' kind = (0, None)
   \<and> (isDecimal token \<and> token \<noteq> ''0'' \<and> decimalValue token < 2 ^ 64 - 1 \<longrightarrow>
        snd (parseWatchResourceVersion token kind) = None
        \<and> unat (fst (parseWatchResourceVersion token kind)) = decimalValue token + 1)
   \<and> (token \<noteq> '''' \<and> (\<not> isDecimal token \<or> 2 ^ 64 \<le> decimalValue token) \<longrightarrow>
        parseWatchResourceVersion token kind = (0, Some (InvalidResourceVersion kind token)))
   \<and> parseWatchResourceVersion ''5'' kind = (6, None)
   \<and> parseWatchResourceVersion ''abc'' kind = (0, Some (InvalidResourceVersion kind ''abc''))"
proof -
  have a: "parseWatchResourceVersion '''' kind = (0, None)"
    and b: "parseWatchResourceVersion ''0'' kind = (0, None)"
    by (simp_all add: parseWatchResourceVersion_def)
  have c: "snd (parseWatchResourceVersion token kind) = None
        \<and> unat (fst (parseWatchResourceVersion token kind)) = decimalValue token + 1"
    if h: "isDecimal token \<and> token \<noteq> ''0'' \<and> decimalValue token < 2 ^ 64 - 1"
  proof -
    have lt: "decimalValue token + 1 < 2 ^ 64" using h by simp
    have p: "parseWatchResourceVersion token kind = (of_nat (decimalValue token) + 1, None)"
      using h by (intro parse_accepts) simp_all
    have "unat (of_nat (decimalValue token) + 1 :: 64 word)
            = unat (of_nat (decimalValue token + 1) :: 64 word)" by (simp add: add.commute)
    also have "\<dots> = decimalValue token + 1"
      using lt by (simp only: unat_of_nat) simp
    finally show ?thesis using p by simp
  qed
  have d: "parseWatchResourceVersion token kind = (0, Some (InvalidResourceVersion kind token))"
    if "token \<noteq> '''' \<and> (\<not> isDecimal token \<or> 2 ^ 64 \<le> decimalValue token)"
    using that by (intro parse_rejects) simp_all
  have five: "isDecimal ''5'' \<and> decimalValue ''5'' = 5"
    by (simp add: isDecimal_def isDigit_def decimalValue_def decimalStep_def)
  have e: "parseWatchResourceVersion ''5'' kind = (6, None)"
    using parse_accepts [of "''5''" kind] five by simp
  have f: "parseWatchResourceVersion ''abc'' kind = (0, Some (InvalidResourceVersion kind ''abc''))"
    by (rule parse_rejects) (simp_all add: isDecimal_def isDigit_def)
  from a b c d e f show ?thesis by blast
qed

theorem parseWatchResourceVersion_cursor_witness:
  "(isDecimal ''41'' \<and> ''41'' \<noteq> ''0'' \<and> decimalValue ''41'' < 2 ^ 64 - 1)
   \<and> snd (parseWatchResourceVersion ''41'' ''image'') = None
   \<and> unat (fst (parseWatchResourceVersion ''41'' ''image'')) = 42
   \<and> ''4x'' \<noteq> '''' \<and> \<not> isDecimal ''4x''
   \<and> parseWatchResourceVersion ''4x'' ''image'' = (0, Some (InvalidResourceVersion ''image'' ''4x''))"
proof -
  have h1: "isDecimal ''41'' \<and> ''41'' \<noteq> ''0'' \<and> decimalValue ''41'' < 2 ^ 64 - 1"
    by (simp add: isDecimal_def isDigit_def decimalValue_def decimalStep_def)
  have h2: "''4x'' \<noteq> '''' \<and> \<not> isDecimal ''4x''"
    by (simp add: isDecimal_def isDigit_def)
  have v: "decimalValue ''41'' = 41" by (simp add: decimalValue_def decimalStep_def)
  have r1: "snd (parseWatchResourceVersion ''41'' ''image'') = None
        \<and> unat (fst (parseWatchResourceVersion ''41'' ''image'')) = 42"
    using parseWatchResourceVersion_cursor [of "''image''" "''41''"] h1 v by simp
  have r2: "parseWatchResourceVersion ''4x'' ''image'' = (0, Some (InvalidResourceVersion ''image'' ''4x''))"
    using parseWatchResourceVersion_cursor [of "''image''" "''4x''"] h2 by blast
  from h1 r1 h2 r2 show ?thesis by blast
qed

text \<open>
  The claim as first stated promises cursor \<open>N + 1\<close> with no error for every valid
  non-negative decimal \<open>N\<close>. At \<open>N = 2^64 - 1\<close> the cursor is not \<open>N + 1\<close>, and at
  \<open>N = 2^64\<close> the parse fails.
\<close>

theorem parseWatchResourceVersion_cursor_counterexample:
  "isDecimal ''18446744073709551615''
   \<and> unat (fst (parseWatchResourceVersion ''18446744073709551615'' ''deployment''))
       \<noteq> decimalValue ''18446744073709551615'' + 1
   \<and> isDecimal ''18446744073709551616''
   \<and> snd (parseWatchResourceVersion ''18446744073709551616'' ''deployment'') \<noteq> None"
proof -
  have "parseWatchResourceVersion ''18446744073709551616'' ''deployment''
          = (0, Some (InvalidResourceVersion ''deployment'' ''18446744073709551616''))"
    using beyond_max_token by (intro parse_rejects) simp_all
  then show ?thesis using max_token beyond_max_token parse_max_token [of "''deployment''"] by simp
qed

text \<open>
  C9. For the token \<open>18446744073709551615\<close>, the maximal unsigned 64-bit integer,
  \<open>parseWatchResourceVersion\<close> succeeds and returns cursor 0 with no error: the token
  parses to the maximal value and adding one wraps around to 0, so the token gives the
  result of the empty token, which means no lower bound.
\<close>

theorem parseWatchResourceVersion_wraps:
  "parseWatchResourceVersion ''18446744073709551615'' kind = (0, None)
   \<and> parseWatchResourceVersion ''18446744073709551615'' kind = parseWatchResourceVersion '''' kind
   \<and> ParseUint ''18446744073709551615'' = Inr maxUint64
   \<and> maxUint64 + 1 = 0"
proof -
  have "ParseUint ''18446744073709551615'' = Inr (of_nat (decimalValue ''18446744073709551615''))"
    using max_token by (simp add: ParseUint_Inr)
  then have "ParseUint ''18446744073709551615'' = Inr maxUint64"
    using max_token by (simp add: maxUint64_def)
  moreover have "parseWatchResourceVersion '''' kind = (0, None)"
    by (simp add: parseWatchResourceVersion_def)
  moreover have "maxUint64 + 1 = 0" by (simp add: maxUint64_def)
  ultimately show ?thesis using parse_max_token [of kind] by simp
qed

subsection \<open>Keys\<close>

text \<open>
  C8. For every kind and every id, the store key is the path prefix, then \<open>/\<close>, then the
  id, built from the fixed namespace prefix of the kind (\<open>/deployments\<close>,
  \<open>/deploymentConfigs\<close>, \<open>/images\<close>, \<open>/imageRepositories\<close>), and two ids of the same
  kind have the same key only when they are the same id.
\<close>

theorem keys_are_prefixed_and_injective:
  "makeDeploymentKey ident = ''/deployments'' @ ''/'' @ ident
   \<and> makeDeploymentConfigKey ident = ''/deploymentConfigs'' @ ''/'' @ ident
   \<and> makeImageKey ident = ''/images'' @ ''/'' @ ident
   \<and> makeImageRepositoryKey ident = ''/imageRepositories'' @ ''/'' @ ident
   \<and> (makeDeploymentKey a = makeDeploymentKey b) = (a = b)
   \<and> (makeDeploymentConfigKey a = makeDeploymentConfigKey b) = (a = b)
   \<and> (makeImageKey a = makeImageKey b) = (a = b)
   \<and> (makeImageRepositoryKey a = makeImageRepositoryKey b) = (a = b)"
  by (simp add: makeDeploymentKey_def makeDeploymentConfigKey_def makeImageKey_def
      makeImageRepositoryKey_def)

subsection \<open>Update of an image\<close>

text \<open>
  C2. For every input entity, \<open>UpdateImage\<close> fails with the error \<open>not supported\<close>,
  whatever the entity and its id are, and whatever the store is and does: the state of the
  store after the call is the state before it.
\<close>

theorem UpdateImage_unsupported:
  "UpdateImage r img s = (Some (ErrorString ''not supported''), s)"
  by (simp add: UpdateImage_def)

subsection \<open>Listing\<close>

lemma filterItems_matching:
  "filterItems selector items filtered = filtered @ matching selector items"
  by (induction items arbitrary: filtered) (simp_all add: matching_def)

lemma ListDeployments_ok:
  assumes "ExtractToList r ''/deployments'' s = ((l, None), s')"
  shows "ListDeployments r selector s
           = ((Some (l\<lparr>Items := matching selector (Items l)\<rparr>), None), s')"
  using assms by (simp add: ListDeployments_def filterItems_matching)

lemma ListDeploymentConfigs_ok:
  assumes "ExtractToList r ''/deploymentConfigs'' s = ((l, None), s')"
  shows "ListDeploymentConfigs r selector s
           = ((Some (l\<lparr>Items := matching selector (Items l)\<rparr>), None), s')"
  using assms by (simp add: ListDeploymentConfigs_def filterItems_matching)

lemma ListImages_ok:
  assumes "ExtractToList r ''/images'' s = ((l, None), s')"
  shows "ListImages r selector s
           = ((Some (l\<lparr>Items := matching selector (Items l)\<rparr>), None), s')"
  using assms by (simp add: ListImages_def filterItems_matching)

lemma ListImageRepositories_ok:
  assumes "ExtractToList r ''/imageRepositories'' s = ((l, None), s')"
  shows "ListImageRepositories r selector s
           = ((Some (l\<lparr>Items := matching selector (Items l)\<rparr>), None), s')"
  using assms by (simp add: ListImageRepositories_def filterItems_matching)

text \<open>
  C3. For every selector and every collection successfully extracted from the store, each
  of the four list methods returns, with no error, the extracted collection with its items
  replaced by the subsequence, in the store's order, of the items whose labels satisfy
  \<open>Matches\<close>; a selector that always matches leaves the items unchanged, and one that
  never matches leaves none.
\<close>

theorem List_returns_matching:
  "(ExtractToList r ''/deployments'' s = ((l, None), s') \<longrightarrow>
      ListDeployments r selector s
        = ((Some (l\<lparr>Items := matching selector (Items l)\<rparr>), None), s'))
   \<and> (ExtractToList r ''/deploymentConfigs'' s = ((l, None), s') \<longrightarrow>
      ListDeploymentConfigs r selector s
        = ((Some (l\<lparr>Items := matching selector (Items l)\<rparr>), None), s'))
   \<and> (ExtractToList r ''/images'' s = ((l, None), s') \<longrightarrow>
      ListImages r selector s
        = ((Some (l\<lparr>Items := matching selector (Items l)\<rparr>), None), s'))
   \<and> (ExtractToList r ''/imageRepositories'' s = ((l, None), s') \<longrightarrow>
      ListImageRepositories r selector s
        = ((Some (l\<lparr>Items := matching selector (Items l)\<rparr>), None), s'))
   \<and> matching selector items = filter (\<lambda>item. Matches selector (Labels item)) items
   \<and> ((\<forall>labels. Matches selector labels) \<longrightarrow> l\<lparr>Items := matching selector (Items l)\<rparr> = l)
   \<and> ((\<forall>labels. \<not> Matches selector labels) \<longrightarrow> matching selector items = [])"
proof -
  have "l\<lparr>Items := matching selector (Items l)\<rparr> = l" if "\<forall>labels. Matches selector labels"
    using that by (simp add: matching_def)
  moreover have "matching selector items = []" if "\<forall>labels. \<not> Matches selector labels"
    using that by (simp add: matching_def)
  moreover have "matching selector items = filter (\<lambda>item. Matches selector (Labels item)) items"
    by (simp add: matching_def)
  ultimately show ?thesis
    using ListDeployments_ok [of r s l s' selector] ListDeploymentConfigs_ok [of r s l s' selector]
      ListImages_ok [of r s l s' selector] ListImageRepositories_ok [of r s l s' selector]
    by blast
qed

theorem List_returns_matching_witness:
  "ExtractToList (countingHelper [db, web, db] db None :: (nat, unit, unit, unit, nat) EtcdHelper)
      ''/deployments'' 0 = ((\<lparr>Items = [db, web, db]\<rparr>, None), 1)
   \<and> ListDeployments (countingHelper [db, web, db] db None :: (nat, unit, unit, unit, nat) EtcdHelper)
        prodSelector 0 = ((Some \<lparr>Items = [web]\<rparr>, None), 1)
   \<and> ListDeploymentConfigs (countingHelper [db, web, db] db None :: (nat, unit, unit, unit, nat) EtcdHelper)
        prodSelector 0 = ((Some \<lparr>Items = [web]\<rparr>, None), 1)
   \<and> ListImages (countingHelper [db, web, db] db None :: (nat, unit, unit, unit, nat) EtcdHelper)
        prodSelector 0 = ((Some \<lparr>Items = [web]\<rparr>, None), 1)
   \<and> ListImageRepositories (countingHelper [db, web, db] db None :: (nat, unit, unit, unit, nat) EtcdHelper)
        prodSelector 0 = ((Some \<lparr>Items = [web]\<rparr>, None), 1)
   \<and> (\<forall>labels. Matches \<lparr>Matches = (\<lambda>labels. True)\<rparr> labels)
   \<and> matching \<lparr>Matches = (\<lambda>labels. True)\<rparr> [db, web, db] = [db, web, db]
   \<and> (\<forall>labels. \<not> Matches \<lparr>Matches = (\<lambda>labels. False)\<rparr> labels)
   \<and> matching \<lparr>Matches = (\<lambda>labels. False)\<rparr> [db, web, db] = []"
proof -
  let ?r = "countingHelper [db, web, db] db None :: (nat, unit, unit, unit, nat) EtcdHelper"
  let ?l = "\<lparr>Items = [db, web, db]\<rparr>"
  have h: "\<And>key. ExtractToList ?r key 0 = ((?l, None), 1)"
    by (simp add: countingHelper_def)
  have m: "matching prodSelector [db, web, db] = [web]"
    by (simp add: matching_def prodSelector_def web_def db_def)
  have always: "\<forall>labels. Matches \<lparr>Matches = (\<lambda>labels. True)\<rparr> labels" by simp
  have never: "\<forall>labels. \<not> Matches \<lparr>Matches = (\<lambda>labels. False)\<rparr> labels" by simp
  note t = List_returns_matching [of ?r 0 ?l 1 prodSelector "[db, web, db]"]
  have a: "l\<lparr>Items := matching \<lparr>Matches = (\<lambda>labels. True)\<rparr> (Items l)\<rparr> = l"
    if "l = ?l" for l :: "Resource ResourceList"
    using List_returns_matching [of ?r 0 l 1 "\<lparr>Matches = (\<lambda>labels. True)\<rparr>" "[db, web, db]"] always
    by blast
  have a': "matching \<lparr>Matches = (\<lambda>labels. True)\<rparr> [db, web, db] = [db, web, db]"
    using a [of ?l] by (simp add: ResourceList.equality)
  have n: "matching \<lparr>Matches = (\<lambda>labels. False)\<rparr> [db, web, db] = []"
    using List_returns_matching [of ?r 0 ?l 1 "\<lparr>Matches = (\<lambda>labels. False)\<rparr>" "[db, web, db]"] never
    by blast
  from t h m have
    "ListDeployments ?r prodSelector 0 = ((Some \<lparr>Items = [web]\<rparr>, None), 1)"
    "ListDeploymentConfigs ?r prodSelector 0 = ((Some \<lparr>Items = [web]\<rparr>, None), 1)"
    "ListImages ?r prodSelector 0 = ((Some \<lparr>Items = [web]\<rparr>, None), 1)"
    "ListImageRepositories ?r prodSelector 0 = ((Some \<lparr>Items = [web]\<rparr>, None), 1)"
    by simp_all
  with h always a' never n show ?thesis by simp
qed

text \<open>
  C5. For every selector, when the store's extraction fails, each of the four list methods
  returns the error of the store as it is, not passed through the translator, together
  with a nil collection.
\<close>

theorem List_returns_store_error:
  "(ExtractToList r ''/deployments'' s = ((l, Some e), s') \<longrightarrow>
      ListDeployments r selector s = ((None, Some e), s'))
   \<and> (ExtractToList r ''/deploymentConfigs'' s = ((l, Some e), s') \<longrightarrow>
      ListDeploymentConfigs r selector s = ((None, Some e), s'))
   \<and> (ExtractToList r ''/images'' s = ((l, Some e), s') \<longrightarrow>
      ListImages r selector s = ((None, Some e), s'))
   \<and> (ExtractToList r ''/imageRepositories'' s = ((l, Some e), s') \<longrightarrow>
      ListImageRepositories r selector s = ((None, Some e), s'))"
  by (simp add: ListDeployments_def ListDeploymentConfigs_def ListImages_def
      ListImageRepositories_def)

theorem List_returns_store_error_witness:
  "ExtractToList (countingHelper [db, web] db (Some (StoreError KeyAbsent))
        :: (nat, unit, unit, unit, nat) EtcdHelper) ''/images'' 0
      = ((\<lparr>Items = [db, web]\<rparr>, Some (StoreError KeyAbsent)), 1)
   \<and> ListDeployments (countingHelper [db, web] db (Some (StoreError KeyAbsent))
        :: (nat, unit, unit, unit, nat) EtcdHelper) prodSelector 0
      = ((None, Some (StoreError KeyAbsent)), 1)
   \<and> ListDeploymentConfigs (countingHelper [db, web] db (Some (StoreError KeyAbsent))
        :: (nat, unit, unit, unit, nat) EtcdHelper) prodSelector 0
      = ((None, Some (StoreError KeyAbsent)), 1)
   \<and> ListImages (countingHelper [db, web] db (Some (StoreError KeyAbsent))
        :: (nat, unit, unit, unit, nat) EtcdHelper) prodSelector 0
      = ((None, Some (StoreError KeyAbsent)), 1)
   \<and> ListImageRepositories (countingHelper [db, web] db (Some (StoreError KeyAbsent))
        :: (nat, unit, unit, unit, nat) EtcdHelper) prodSelector 0
      = ((None, Some (StoreError KeyAbsent)), 1)"
proof -
  let ?r = "countingHelper [db, web] db (Some (StoreError KeyAbsent))
              :: (nat, unit, unit, unit, nat) EtcdHelper"
  have h: "\<And>key. ExtractToList ?r key 0 = ((\<lparr>Items = [db, web]\<rparr>, Some (StoreError KeyAbsent)), 1)"
    by (simp add: countingHelper_def)
  show ?thesis
    using List_returns_store_error [of ?r 0 "\<lparr>Items = [db, web]\<rparr>" "StoreError KeyAbsent" 1 prodSelector] h
    by simp
qed

subsection \<open>Errors of Get, Create, Update and Delete\<close>

lemma Deployment_errors_translated:
  "snd (fst (GetDeployment r ident s))
     = translate (snd (fst (ExtractObj r (makeDeploymentKey ident) False s))) ''get'' ''deployment'' ident
   \<and> fst (CreateDeployment r x s)
     = translate (fst (CreateObj r (makeDeploymentKey (ID x)) x 0 s)) ''create'' ''deployment'' (ID x)
   \<and> fst (UpdateDeployment r x s)
     = translate (fst (SetObj r (makeDeploymentKey (ID x)) x s)) ''update'' ''deployment'' (ID x)
   \<and> fst (DeleteDeployment r ident s)
     = translate (fst (Delete r (makeDeploymentKey ident) False s)) ''delete'' ''deployment'' ident"
  by (simp add: GetDeployment_def CreateDeployment_def DeleteDeployment_def UpdateDeployment_def InterpretGetError_def InterpretCreateError_def
      InterpretUpdateError_def InterpretDeleteError_def Let_def
      split: prod.splits option.splits)

lemma DeploymentConfig_errors_translated:
  "snd (fst (GetDeploymentConfig r ident s))
     = translate (snd (fst (ExtractObj r (makeDeploymentConfigKey ident) False s))) ''get'' ''deploymentConfig'' ident
   \<and> fst (CreateDeploymentConfig r x s)
     = translate (fst (CreateObj r (makeDeploymentConfigKey (ID x)) x 0 s)) ''create'' ''deploymentConfig'' (ID x)
   \<and> fst (UpdateDeploymentConfig r x s)
     = translate (fst (SetObj r (makeDeploymentConfigKey (ID x)) x s)) ''update'' ''deploymentConfig'' (ID x)
   \<and> fst (DeleteDeploymentConfig r ident s)
     = translate (fst (Delete r (makeDeploymentConfigKey ident) False s)) ''delete'' ''deploymentConfig'' ident"
  by (simp add: GetDeploymentConfig_def CreateDeploymentConfig_def DeleteDeploymentConfig_def UpdateDeploymentConfig_def InterpretGetError_def InterpretCreateError_def
      InterpretUpdateError_def InterpretDeleteError_def Let_def
      split: prod.splits option.splits)

lemma Image_errors_translated:
  "snd (fst (GetImage r ident s))
     = translate (snd (fst (ExtractObj r (makeImageKey ident) False s))) ''get'' ''image'' ident
   \<and> fst (CreateImage r x s)
     = translate (fst (CreateObj r (makeImageKey (ID x)) x 0 s)) ''create'' ''image'' (ID x)
   \<and> fst (DeleteImage r ident s)
     = translate (fst (Delete r (makeImageKey ident) False s)) ''delete'' ''image'' ident"
  by (simp add: GetImage_def CreateImage_def DeleteImage_def InterpretGetError_def InterpretCreateError_def
      InterpretUpdateError_def InterpretDeleteError_def Let_def
      split: prod.splits option.splits)

lemma ImageRepository_errors_translated:
  "snd (fst (GetImageRepository r ident s))
     = translate (snd (fst (ExtractObj r (makeImageRepositoryKey ident) False s))) ''get'' ''imageRepository'' ident
   \<and> fst (CreateImageRepository r x s)
     = translate (fst (CreateObj r (makeImageRepositoryKey (ID x)) x 0 s)) ''create'' ''imageRepository'' (ID x)
   \<and> fst (UpdateImageRepository r x s)
     = translate (fst (SetObj r (makeImageRepositoryKey (ID x)) x s)) ''update'' ''imageRepository'' (ID x)
   \<and> fst (DeleteImageRepository r ident s)
     = translate (fst (Delete r (makeImageRepositoryKey ident) False s)) ''delete'' ''imageRepository'' ident"
  by (simp add: GetImageRepository_def CreateImageRepository_def DeleteImageRepository_def UpdateImageRepository_def InterpretGetError_def InterpretCreateError_def
      InterpretUpdateError_def InterpretDeleteError_def Let_def
      split: prod.splits option.splits)

text \<open>
  C6. For every Get, Create, Update and Delete on every kind that supports the operation,
  the error returned is what the translator makes of the error of the store call, with
  the name of the operation, the kind string and the id of the entity. The translator
  turns every error of the store into a domain error tagged with that operation, kind and
  id, so none is swallowed, and it turns nil into nil.
\<close>

theorem errors_are_translated:
  "snd (fst (GetDeployment r ident s))
     = translate (snd (fst (ExtractObj r (makeDeploymentKey ident) False s))) ''get'' ''deployment'' ident
   \<and> fst (CreateDeployment r x s)
     = translate (fst (CreateObj r (makeDeploymentKey (ID x)) x 0 s)) ''create'' ''deployment'' (ID x)
   \<and> fst (UpdateDeployment r x s)
     = translate (fst (SetObj r (makeDeploymentKey (ID x)) x s)) ''update'' ''deployment'' (ID x)
   \<and> fst (DeleteDeployment r ident s)
     = translate (fst (Delete r (makeDeploymentKey ident) False s)) ''delete'' ''deployment'' ident
   \<and> snd (fst (GetDeploymentConfig r ident s))
     = translate (snd (fst (ExtractObj r (makeDeploymentConfigKey ident) False s))) ''get'' ''deploymentConfig'' ident
   \<and> fst (CreateDeploymentConfig r x s)
     = translate (fst (CreateObj r (makeDeploymentConfigKey (ID x)) x 0 s)) ''create'' ''deploymentConfig'' (ID x)
   \<and> fst (UpdateDeploymentConfig r x s)
     = translate (fst (SetObj r (makeDeploymentConfigKey (ID x)) x s)) ''update'' ''deploymentConfig'' (ID x)
   \<and> fst (DeleteDeploymentConfig r ident s)
     = translate (fst (Delete r (makeDeploymentConfigKey ident) False s)) ''delete'' ''deploymentConfig'' ident
   \<and> snd (fst (GetImage r ident s))
     = translate (snd (fst (ExtractObj r (makeImageKey ident) False s))) ''get'' ''image'' ident
   \<and> fst (CreateImage r x s)
     = translate (fst (CreateObj r (makeImageKey (ID x)) x 0 s)) ''create'' ''image'' (ID x)
   \<and> fst (DeleteImage r ident s)
     = translate (fst (Delete r (makeImageKey ident) False s)) ''delete'' ''image'' ident
   \<and> snd (fst (GetImageRepository r ident s))
     = translate (snd (fst (ExtractObj r (makeImageRepositoryKey ident) False s))) ''get'' ''imageRepository'' ident
   \<and> fst (CreateImageRepository r x s)
     = translate (fst (CreateObj r (makeImageRepositoryKey (ID x)) x 0 s)) ''create'' ''imageRepository'' (ID x)
   \<and> fst (UpdateImageRepository r x s)
     = translate (fst (SetObj r (makeImageRepositoryKey (ID x)) x s)) ''update'' ''imageRepository'' (ID x)
   \<and> fst (DeleteImageRepository r ident s)
     = translate (fst (Delete r (makeImageRepositoryKey ident) False s)) ''delete'' ''imageRepository'' ident
   \<and> translate (Some e) operation kind ident
       = Some (DomainError (categorise e operation) operation kind ident)
   \<and> translate None operation kind ident = None"
  using Deployment_errors_translated [of r ident s x]
    DeploymentConfig_errors_translated [of r ident s x]
    Image_errors_translated [of r ident s x]
    ImageRepository_errors_translated [of r ident s x]
  by simp

subsection \<open>Watching\<close>

text \<open>
  C7. For every resource version that is not empty and is not a string of decimal digits
  with a value below \<open>2^64\<close>, each watch method returns the
  \<open>InvalidResourceVersion\<close> error of its kind and a nil stream, and leaves the store in
  the state it was in: no method of the store is called, so no subscription is opened.
\<close>

theorem Watch_rejects_bad_version:
  assumes "token \<noteq> []" and "\<not> isDecimal token \<or> 2 ^ 64 \<le> decimalValue token"
  shows "WatchDeployments r token fltr s
         = ((None, Some (InvalidResourceVersion ''deployment'' token)), s)
     \<and> WatchDeploymentConfigs r token fltr s
         = ((None, Some (InvalidResourceVersion ''deploymentConfig'' token)), s)
     \<and> WatchImageRepositories r token fltr s
         = ((None, Some (InvalidResourceVersion ''imageRepository'' token)), s)"
  using parse_rejects [OF assms]
  by (simp add: WatchDeployments_def WatchDeploymentConfigs_def WatchImageRepositories_def)

theorem Watch_rejects_bad_version_witness:
  "''1e3'' \<noteq> [] \<and> \<not> isDecimal ''1e3''
   \<and> WatchDeployments (countingHelper [] db None) ''1e3'' countingFilter 0
       = ((None, Some (InvalidResourceVersion ''deployment'' ''1e3'')), 0)
   \<and> WatchDeploymentConfigs (countingHelper [] db None) ''1e3'' countingFilter 0
       = ((None, Some (InvalidResourceVersion ''deploymentConfig'' ''1e3'')), 0)
   \<and> WatchImageRepositories (countingHelper [] db None) ''1e3'' countingFilter 0
       = ((None, Some (InvalidResourceVersion ''imageRepository'' ''1e3'')), 0)"
proof -
  have h1: "''1e3'' \<noteq> []" by simp
  have h2: "\<not> isDecimal ''1e3''" by (simp add: isDecimal_def isDigit_def)
  then have h3: "\<not> isDecimal ''1e3'' \<or> 2 ^ 64 \<le> decimalValue ''1e3''" by simp
  show ?thesis
    using Watch_rejects_bad_version [OF h1 h3, of "countingHelper [] db None" countingFilter 0] h2
    by simp
qed

lemma watchStream_step:
  "watchStream predicate (e # es) w =
     (if fst (predicate (Object e) w)
      then e # fst (watchStream predicate es (snd (predicate (Object e) w)))
      else fst (watchStream predicate es (snd (predicate (Object e) w))),
      snd (watchStream predicate es (snd (predicate (Object e) w))))"
  by (simp split: prod.splits)

lemma deploymentWatchPredicate_other:
  assumes "\<not> isDeployment obj"
  shows "deploymentWatchPredicate fltr obj (u, diags)
           = (False, (u, diags @ [Errorf ''Unexpected object during deployment watch: %#v'' obj]))"
  using assms by (cases obj) (simp_all add: deploymentWatchPredicate_def)

lemma deploymentWatchPredicate_typed:
  "deploymentWatchPredicate fltr (DeploymentObject d) (u, diags)
     = (fst (fltr d u), (snd (fltr d u), diags))"
  by (simp add: deploymentWatchPredicate_def split: prod.splits)

lemma deploymentConfigWatchPredicate_other:
  assumes "\<not> isDeploymentConfig obj"
  shows "deploymentConfigWatchPredicate fltr obj (u, diags)
           = (False, (u, diags @ [Errorf ''Unexpected object during deploymentConfig watch: %#v'' obj]))"
  using assms by (cases obj) (simp_all add: deploymentConfigWatchPredicate_def)

lemma deploymentConfigWatchPredicate_typed:
  "deploymentConfigWatchPredicate fltr (DeploymentConfigObject d) (u, diags)
     = (fst (fltr d u), (snd (fltr d u), diags))"
  by (simp add: deploymentConfigWatchPredicate_def split: prod.splits)

lemma imageRepositoryWatchPredicate_other:
  assumes "\<not> isImageRepository obj"
  shows "imageRepositoryWatchPredicate fltr obj (u, diags)
           = (False, (u, diags @ [Errorf ''Unexpected object during image repository watch: %#v'' obj]))"
  using assms by (cases obj) (simp_all add: imageRepositoryWatchPredicate_def)

lemma imageRepositoryWatchPredicate_typed:
  "imageRepositoryWatchPredicate fltr (ImageRepositoryObject d) (u, diags)
     = (fst (fltr d u), (snd (fltr d u), diags))"
  by (simp add: imageRepositoryWatchPredicate_def split: prod.splits)

lemma deployment_stream_other:
  assumes "\<not> isDeployment (Object e)"
  shows "watchStream (deploymentWatchPredicate fltr) (e # es) (u, diags)
           = watchStream (deploymentWatchPredicate fltr) es
               (u, diags @ [Errorf ''Unexpected object during deployment watch: %#v'' (Object e)])"
  by (simp only: watchStream_step deploymentWatchPredicate_other [OF assms]) simp

lemma deployment_stream_typed:
  assumes "Object e = DeploymentObject d"
  shows "watchStream (deploymentWatchPredicate fltr) (e # es) (u, diags)
           = (if fst (fltr d u)
              then e # fst (watchStream (deploymentWatchPredicate fltr) es (snd (fltr d u), diags))
              else fst (watchStream (deploymentWatchPredicate fltr) es (snd (fltr d u), diags)),
              snd (watchStream (deploymentWatchPredicate fltr) es (snd (fltr d u), diags)))"
  by (simp only: watchStream_step assms deploymentWatchPredicate_typed fst_conv snd_conv)

lemma deploymentConfig_stream_other:
  assumes "\<not> isDeploymentConfig (Object e)"
  shows "watchStream (deploymentConfigWatchPredicate fltr) (e # es) (u, diags)
           = watchStream (deploymentConfigWatchPredicate fltr) es
               (u, diags @ [Errorf ''Unexpected object during deploymentConfig watch: %#v'' (Object e)])"
  by (simp only: watchStream_step deploymentConfigWatchPredicate_other [OF assms]) simp

lemma deploymentConfig_stream_typed:
  assumes "Object e = DeploymentConfigObject d"
  shows "watchStream (deploymentConfigWatchPredicate fltr) (e # es) (u, diags)
           = (if fst (fltr d u)
              then e # fst (watchStream (deploymentConfigWatchPredicate fltr) es (snd (fltr d u), diags))
              else fst (watchStream (deploymentConfigWatchPredicate fltr) es (snd (fltr d u), diags)),
              snd (watchStream (deploymentConfigWatchPredicate fltr) es (snd (fltr d u), diags)))"
  by (simp only: watchStream_step assms deploymentConfigWatchPredicate_typed fst_conv snd_conv)

lemma imageRepository_stream_other:
  assumes "\<not> isImageRepository (Object e)"
  shows "watchStream (imageRepositoryWatchPredicate fltr) (e # es) (u, diags)
           = watchStream (imageRepositoryWatchPredicate fltr) es
               (u, diags @ [Errorf ''Unexpected object during image repository watch: %#v'' (Object e)])"
  by (simp only: watchStream_step imageRepositoryWatchPredicate_other [OF assms]) simp

lemma imageRepository_stream_typed:
  assumes "Object e = ImageRepositoryObject d"
  shows "watchStream (imageRepositoryWatchPredicate fltr) (e # es) (u, diags)
           = (if fst (fltr d u)
              then e # fst (watchStream (imageRepositoryWatchPredicate fltr) es (snd (fltr d u), diags))
              else fst (watchStream (imageRepositoryWatchPredicate fltr) es (snd (fltr d u), diags)),
              snd (watchStream (imageRepositoryWatchPredicate fltr) es (snd (fltr d u), diags)))"
  by (simp only: watchStream_step assms imageRepositoryWatchPredicate_typed fst_conv snd_conv)

text \<open>
  C4. For every raw event delivered on a watch stream: if the dynamic kind of its object
  is not the kind the watch expects, the wrapping predicate records one diagnostic and
  yields false, the event is dropped, and the stream goes on with the events that follow;
  otherwise the predicate the caller supplied is applied to the typed object, and the event
  is forwarded if and only if that predicate returns true.
\<close>

theorem watch_drops_or_filters:
  "(\<not> isDeployment (Object e) \<longrightarrow>
      deploymentWatchPredicate fltr (Object e) (u, diags)
        = (False, (u, diags @ [Errorf ''Unexpected object during deployment watch: %#v'' (Object e)]))
      \<and> watchStream (deploymentWatchPredicate fltr) (e # es) (u, diags)
        = watchStream (deploymentWatchPredicate fltr) es
            (u, diags @ [Errorf ''Unexpected object during deployment watch: %#v'' (Object e)]))
   \<and> (Object e = DeploymentObject d \<longrightarrow>
      deploymentWatchPredicate fltr (Object e) (u, diags) = (fst (fltr d u), (snd (fltr d u), diags))
      \<and> watchStream (deploymentWatchPredicate fltr) (e # es) (u, diags)
        = (if fst (fltr d u)
           then e # fst (watchStream (deploymentWatchPredicate fltr) es (snd (fltr d u), diags))
           else fst (watchStream (deploymentWatchPredicate fltr) es (snd (fltr d u), diags)),
           snd (watchStream (deploymentWatchPredicate fltr) es (snd (fltr d u), diags))))
   \<and> (\<not> isDeploymentConfig (Object e) \<longrightarrow>
      deploymentConfigWatchPredicate fltr (Object e) (u, diags)
        = (False, (u, diags @ [Errorf ''Unexpected object during deploymentConfig watch: %#v'' (Object e)]))
      \<and> watchStream (deploymentConfigWatchPredicate fltr) (e # es) (u, diags)
        = watchStream (deploymentConfigWatchPredicate fltr) es
            (u, diags @ [Errorf ''Unexpected object during deploymentConfig watch: %#v'' (Object e)]))
   \<and> (Object e = DeploymentConfigObject d \<longrightarrow>
      deploymentConfigWatchPredicate fltr (Object e) (u, diags) = (fst (fltr d u), (snd (fltr d u), diags))
      \<and> watchStream (deploymentConfigWatchPredicate fltr) (e # es) (u, diags)
        = (if fst (fltr d u)
           then e # fst (watchStream (deploymentConfigWatchPredicate fltr) es (snd (fltr d u), diags))
           else fst (watchStream (deploymentConfigWatchPredicate fltr) es (snd (fltr d u), diags)),
           snd (watchStream (deploymentConfigWatchPredicate fltr) es (snd (fltr d u), diags))))
   \<and> (\<not> isImageRepository (Object e) \<longrightarrow>
      imageRepositoryWatchPredicate fltr (Object e) (u, diags)
        = (False, (u, diags @ [Errorf ''Unexpected object during image repository watch: %#v'' (Object e)]))
      \<and> watchStream (imageRepositoryWatchPredicate fltr) (e # es) (u, diags)
        = watchStream (imageRepositoryWatchPredicate fltr) es
            (u, diags @ [Errorf ''Unexpected object during image repository watch: %#v'' (Object e)]))
   \<and> (Object e = ImageRepositoryObject d \<longrightarrow>
      imageRepositoryWatchPredicate fltr (Object e) (u, diags) = (fst (fltr d u), (snd (fltr d u), diags))
      \<and> watchStream (imageRepositoryWatchPredicate fltr) (e # es) (u, diags)
        = (if fst (fltr d u)
           then e # fst (watchStream (imageRepositoryWatchPredicate fltr) es (snd (fltr d u), diags))
           else fst (watchStream (imageRepositoryWatchPredicate fltr) es (snd (fltr d u), diags)),
           snd (watchStream (imageRepositoryWatchPredicate fltr) es (snd (fltr d u), diags))))"
  using deploymentWatchPredicate_other [of "Object e" fltr u diags]
    deploymentConfigWatchPredicate_other [of "Object e" fltr u diags]
    imageRepositoryWatchPredicate_other [of "Object e" fltr u diags]
    deploymentWatchPredicate_typed [of fltr d u diags]
    deploymentConfigWatchPredicate_typed [of fltr d u diags]
    imageRepositoryWatchPredicate_typed [of fltr d u diags]
    deployment_stream_other [of e fltr es u diags]
    deploymentConfig_stream_other [of e fltr es u diags]
    imageRepository_stream_other [of e fltr es u diags]
    deployment_stream_typed [of e d fltr es u diags]
    deploymentConfig_stream_typed [of e d fltr es u diags]
    imageRepository_stream_typed [of e d fltr es u diags]
  by (simp del: watchStream.simps)

theorem watch_drops_or_filters_witness:
  "\<not> isDeployment (Object (added (ForeignObject ''Pod'')))
   \<and> watchStream (deploymentWatchPredicate countingFilter)
        [added (ForeignObject ''Pod''), added (DeploymentObject web)] (0, [])
       = ([added (DeploymentObject web)],
          (1, [Errorf ''Unexpected object during deployment watch: %#v'' (ForeignObject ''Pod'')]))
   \<and> Object (added (DeploymentObject db)) = DeploymentObject db
   \<and> watchStream (deploymentWatchPredicate countingFilter)
        [added (DeploymentObject db), added (DeploymentObject web)] (0, [])
       = ([added (DeploymentObject web)], (2, []))
   \<and> \<not> isDeploymentConfig (Object (added (ForeignObject ''Pod'')))
   \<and> watchStream (deploymentConfigWatchPredicate countingFilter)
        [added (ForeignObject ''Pod''), added (DeploymentConfigObject web)] (0, [])
       = ([added (DeploymentConfigObject web)],
          (1, [Errorf ''Unexpected object during deploymentConfig watch: %#v'' (ForeignObject ''Pod'')]))
   \<and> Object (added (DeploymentConfigObject db)) = DeploymentConfigObject db
   \<and> watchStream (deploymentConfigWatchPredicate countingFilter)
        [added (DeploymentConfigObject db), added (DeploymentConfigObject web)] (0, [])
       = ([added (DeploymentConfigObject web)], (2, []))
   \<and> \<not> isImageRepository (Object (added (ForeignObject ''Pod'')))
   \<and> watchStream (imageRepositoryWatchPredicate countingFilter)
        [added (ForeignObject ''Pod''), added (ImageRepositoryObject web)] (0, [])
       = ([added (ImageRepositoryObject web)],
          (1, [Errorf ''Unexpected object during image repository watch: %#v'' (ForeignObject ''Pod'')]))
   \<and> Object (added (ImageRepositoryObject db)) = ImageRepositoryObject db
   \<and> watchStream (imageRepositoryWatchPredicate countingFilter)
        [added (ImageRepositoryObject db), added (ImageRepositoryObject web)] (0, [])
       = ([added (ImageRepositoryObject web)], (2, []))"
  using watch_drops_or_filters [of "added (ForeignObject ''Pod'')" countingFilter 0 "[]" "[added (DeploymentObject web)]"]
    watch_drops_or_filters [of "added (ForeignObject ''Pod'')" countingFilter 0 "[]" "[added (DeploymentConfigObject web)]"]
    watch_drops_or_filters [of "added (ForeignObject ''Pod'')" countingFilter 0 "[]" "[added (ImageRepositoryObject web)]"]
    watch_drops_or_filters [of "added (DeploymentObject db)" countingFilter 0 "[]" "[added (DeploymentObject web)]" db]
    watch_drops_or_filters [of "added (DeploymentConfigObject db)" countingFilter 0 "[]" "[added (DeploymentConfigObject web)]" db]
    watch_drops_or_filters [of "added (ImageRepositoryObject db)" countingFilter 0 "[]" "[added (ImageRepositoryObject web)]" db]
  by (simp add: added_def countingFilter_def web_def db_def deploymentWatchPredicate_def
      deploymentConfigWatchPredicate_def imageRepositoryWatchPredicate_def)

text \<open>
  C10. For every filter the caller supplies, each wrapping predicate invokes the filter
  only when the delivered object has the concrete kind of the watch, and then on the typed
  object itself. For an object of any other dynamic type it returns false, leaves the
  state of the caller as it was and gives the same result whatever the filter is: the
  filter is not invoked, so it observes no value of another type.
\<close>

theorem filter_sees_expected_kind_only:
  "(\<not> isDeployment obj \<longrightarrow>
      fst (deploymentWatchPredicate fltr obj (u, diags)) = False
      \<and> fst (snd (deploymentWatchPredicate fltr obj (u, diags))) = u
      \<and> deploymentWatchPredicate fltr obj (u, diags) = deploymentWatchPredicate fltr' obj (u, diags))
   \<and> deploymentWatchPredicate fltr (DeploymentObject d) (u, diags)
       = (fst (fltr d u), (snd (fltr d u), diags))
   \<and> fst (snd (deploymentWatchPredicate (observing f) obj (seen, diags)))
       = seen @ (case obj of DeploymentObject x \<Rightarrow> [x] | _ \<Rightarrow> [])
   \<and> (\<not> isDeploymentConfig obj \<longrightarrow>
      fst (deploymentConfigWatchPredicate fltr obj (u, diags)) = False
      \<and> fst (snd (deploymentConfigWatchPredicate fltr obj (u, diags))) = u
      \<and> deploymentConfigWatchPredicate fltr obj (u, diags) = deploymentConfigWatchPredicate fltr' obj (u, diags))
   \<and> deploymentConfigWatchPredicate fltr (DeploymentConfigObject d) (u, diags)
       = (fst (fltr d u), (snd (fltr d u), diags))
   \<and> fst (snd (deploymentConfigWatchPredicate (observing f) obj (seen, diags)))
       = seen @ (case obj of DeploymentConfigObject x \<Rightarrow> [x] | _ \<Rightarrow> [])
   \<and> (\<not> isImageRepository obj \<longrightarrow>
      fst (imageRepositoryWatchPredicate fltr obj (u, diags)) = False
      \<and> fst (snd (imageRepositoryWatchPredicate fltr obj (u, diags))) = u
      \<and> imageRepositoryWatchPredicate fltr obj (u, diags) = imageRepositoryWatchPredicate fltr' obj (u, diags))
   \<and> imageRepositoryWatchPredicate fltr (ImageRepositoryObject d) (u, diags)
       = (fst (fltr d u), (snd (fltr d u), diags))
   \<and> fst (snd (imageRepositoryWatchPredicate (observing f) obj (seen, diags)))
       = seen @ (case obj of ImageRepositoryObject x \<Rightarrow> [x] | _ \<Rightarrow> [])"
proof -
  have "fst (snd (deploymentWatchPredicate (observing f) obj (seen, diags)))
          = seen @ (case obj of DeploymentObject x \<Rightarrow> [x] | _ \<Rightarrow> [])"
    and "fst (snd (deploymentConfigWatchPredicate (observing f) obj (seen, diags)))
          = seen @ (case obj of DeploymentConfigObject x \<Rightarrow> [x] | _ \<Rightarrow> [])"
    and "fst (snd (imageRepositoryWatchPredicate (observing f) obj (seen, diags)))
          = seen @ (case obj of ImageRepositoryObject x \<Rightarrow> [x] | _ \<Rightarrow> [])"
    by (cases obj; simp add: deploymentWatchPredicate_def deploymentConfigWatchPredicate_def
        imageRepositoryWatchPredicate_def observing_def)+
  then show ?thesis
    by (simp add: deploymentWatchPredicate_other deploymentWatchPredicate_typed
        deploymentConfigWatchPredicate_other deploymentConfigWatchPredicate_typed
        imageRepositoryWatchPredicate_other imageRepositoryWatchPredicate_typed)
qed

theorem filter_sees_expected_kind_only_witness:
  "\<not> isDeployment (ImageObject web)
   \<and> fst (deploymentWatchPredicate countingFilter (ImageObject web) (7, [])) = False
   \<and> fst (snd (deploymentWatchPredicate countingFilter (ImageObject web) (7, []))) = 7
   \<and> \<not> isDeploymentConfig (ImageObject web)
   \<and> fst (deploymentConfigWatchPredicate countingFilter (ImageObject web) (7, [])) = False
   \<and> fst (snd (deploymentConfigWatchPredicate countingFilter (ImageObject web) (7, []))) = 7
   \<and> \<not> isImageRepository (ImageObject web)
   \<and> fst (imageRepositoryWatchPredicate countingFilter (ImageObject web) (7, [])) = False
   \<and> fst (snd (imageRepositoryWatchPredicate countingFilter (ImageObject web) (7, []))) = 7"
  using filter_sees_expected_kind_only [of "ImageObject web" countingFilter 7 "[]"]
  by simp

end
